theory Spec2Isabelle
  imports Complex_Main "HOL-Library.Sublist"
begin

section \<open>Data model of the Jira dashboard script\<close>

text \<open>
  The script \<^verbatim>\<open>dashboard_interativo.py\<close> reads a CSV export into a table
  (\<^verbatim>\<open>pd.read_csv\<close>), parses three date columns, derives a category column and a
  table of resolved issues with their lead time, filters the table by three sidebar
  widgets and computes headline figures and chart series from the filtered view.

  A cell of a text column of the table is either a string or the missing value NaN
  (an empty CSV field). Python strings are modelled by their UTF-8 bytes: equality of
  strings and containment of an ASCII substring are the same on code points and on
  UTF-8 bytes.
\<close>

datatype cell = Str string | NaN

text \<open>\<^verbatim>\<open>str(x)\<close> on a cell: a string is itself, NaN prints as \<^verbatim>\<open>nan\<close>.\<close>

fun py_str :: "cell \<Rightarrow> string" where
  "py_str (Str s) = s"
| "py_str NaN = ''nan''"

text \<open>Python's \<^verbatim>\<open>sub in s\<close> on strings: \<^verbatim>\<open>sub\<close> occurs as a contiguous slice.\<close>

fun py_in :: "string \<Rightarrow> string \<Rightarrow> bool" where
  "py_in sub [] = (sub = [])"
| "py_in sub (c # cs) = (prefix sub (c # cs) \<or> py_in sub cs)"

text \<open>
  Timestamps are seconds since 1970-01-01 00:00 (the format has no time zone), a
  calendar date is the number of days since 1970-01-01, and NaT is \<open>None\<close>.
\<close>

type_synonym timestamp = int
type_synonym date = int

text \<open>
  One row of the table. The type parameter is the type of the three date columns:
  \<^typ>\<open>cell\<close> as read from the file, \<^typ>\<open>timestamp option\<close> once parsed.
\<close>

record 'd issue =
  Issue_key :: cell
  Summary :: cell
  Issue_Type :: cell
  Status :: cell
  Priority :: cell
  Assignee :: cell
  Created :: 'd
  Updated :: 'd
  Resolved :: 'd

text \<open>A row of \<^verbatim>\<open>df\<close> after \<^verbatim>\<open>load_data\<close>: dates parsed, column Categoria added.\<close>

record df_row = "timestamp option issue" +
  Categoria :: string

text \<open>
  A row of \<^verbatim>\<open>resolved_df\<close>: copied before Categoria is added, with the column
  Lead_Time_Days. The float stored there is the double nearest to the rational number
  of the model; \<open>None\<close> is the float NaN.
\<close>

record resolved_row = "timestamp option issue" +
  Lead_Time_Days :: "rat option"

section \<open>Ingestion: \<^verbatim>\<open>load_data\<close>\<close>

text \<open>
  The story label and the story category of the source, in UTF-8: the fifth letter is
  o with an acute accent, the two bytes C3 B3.
\<close>

definition Historia :: string where
  "Historia = ''Hist'' @ [CHR 0xC3, CHR 0xB3] @ ''ria''"

definition Historias :: string where
  "Historias = ''Hist'' @ [CHR 0xC3, CHR 0xB3] @ ''rias''"

text \<open>
  Lines 53-57, the lambda applied to every value of column Issue Type:
  \<^verbatim>\<open>Historias if x == Historia else 'Bugs' if 'Bug' in str(x) else 'Outros'\<close>
  (the first two being the accented string literals above).
\<close>

definition categoria :: "cell \<Rightarrow> string" where
  "categoria x =
     (if x = Str Historia then Historias
      else if py_in ''Bug'' (py_str x) then ''Bugs''
      else ''Outros'')"

text \<open>
  Lines 44-46: each date column goes through \<^verbatim>\<open>pd.to_datetime(..., errors='coerce')\<close>.
  The library call is the parameter \<open>to_datetime\<close>; a value it cannot parse is \<open>None\<close>.
\<close>

definition parse_dates ::
  "(cell \<Rightarrow> timestamp option) \<Rightarrow> cell issue \<Rightarrow> timestamp option issue" where
  "parse_dates to_datetime r =
     \<lparr>Issue_key = Issue_key r, Summary = Summary r, Issue_Type = Issue_Type r,
      Status = Status r, Priority = Priority r, Assignee = Assignee r,
      Created = to_datetime (Created r), Updated = to_datetime (Updated r),
      Resolved = to_datetime (Resolved r)\<rparr>"

text \<open>
  Line 50: \<^verbatim>\<open>(Resolved - Created).dt.total_seconds() / 86400\<close>. A difference with NaT
  is NaT, and its total_seconds is NaN.
\<close>

definition lead_time_days :: "timestamp option \<Rightarrow> timestamp option \<Rightarrow> rat option" where
  "lead_time_days resolved created =
     (case (resolved, created) of
        (Some r, Some c) \<Rightarrow> Some (of_int (r - c) / 86400)
      | _ \<Rightarrow> None)"

definition with_lead_time :: "timestamp option issue \<Rightarrow> resolved_row" where
  "with_lead_time r = issue.extend r
     (resolved_row.fields (lead_time_days (Resolved r) (Created r)))"

definition with_categoria :: "timestamp option issue \<Rightarrow> df_row" where
  "with_categoria r = issue.extend r (df_row.fields (categoria (Issue_Type r)))"

text \<open>
  \<^verbatim>\<open>load_data\<close> on the table read from an uploaded file (lines 43-59); the branch
  without a file returns None before any of this runs.
\<close>

definition load_data ::
  "(cell \<Rightarrow> timestamp option) \<Rightarrow> cell issue list \<Rightarrow> df_row list \<times> resolved_row list" where
  "load_data to_datetime csv =
     (let df = map (parse_dates to_datetime) csv;
          resolved_df = map with_lead_time (filter (\<lambda>r. Resolved r \<noteq> None) df)
      in (map with_categoria df, resolved_df))"

section \<open>The fixed date format\<close>

text \<open>
  A model of what \<^verbatim>\<open>pd.to_datetime(col, format='%d/%b/%y %H:%M', errors='coerce')\<close>
  does to one cell, for the concrete scenarios below; the general results hold for
  every parser. The library compiles the format into the regular expression
  \<^verbatim>\<open>(3[0-1]|[1-2]\d|0[1-9]|[1-9]| [1-9])/(jan|...|dec)/(\d\d)\s+(2[0-3]|[0-1]\d|\d):([0-5]\d|\d)\<close>
  (case-insensitive month names), which must match the whole value; every field is
  followed by a delimiter that cannot occur inside it, so each field is the text up to
  its delimiter. Two-digit years up to 68 are in 2000-2068, the others in 1969-1999. A
  day that the month does not have, and a missing value, give NaT. Digits and white
  space are the ASCII ones.
\<close>

definition is_digit :: "char \<Rightarrow> bool" where
  "is_digit c = (c \<in> set ''0123456789'')"

definition digit_val :: "char \<Rightarrow> int" where
  "digit_val c = of_char c - 48"

definition is_space :: "char \<Rightarrow> bool" where
  "is_space c = (c \<in> set [CHR '' '', CHR 0x09, CHR 0x0A, CHR 0x0B, CHR 0x0C, CHR 0x0D])"

fun re_d :: "string \<Rightarrow> int option" where
  "re_d [a, b] =
     (if a = CHR ''3'' \<and> b \<in> set ''01'' then Some (30 + digit_val b)
      else if a \<in> set ''12'' \<and> is_digit b then Some (10 * digit_val a + digit_val b)
      else if a \<in> set ''0 '' \<and> b \<in> set ''123456789'' then Some (digit_val b)
      else None)"
| "re_d [a] = (if a \<in> set ''123456789'' then Some (digit_val a) else None)"
| "re_d _ = None"

definition to_lower :: "char \<Rightarrow> char" where
  "to_lower c = (if c \<in> set ''ABCDEFGHIJKLMNOPQRSTUVWXYZ'' then char_of (of_char c + (32::nat)) else c)"

definition month_names :: "string list" where
  "month_names = [''jan'', ''feb'', ''mar'', ''apr'', ''may'', ''jun'',
                  ''jul'', ''aug'', ''sep'', ''oct'', ''nov'', ''dec'']"

fun index_of :: "'a \<Rightarrow> 'a list \<Rightarrow> int option" where
  "index_of x [] = None"
| "index_of x (y # ys) = (if x = y then Some 0 else map_option (\<lambda>i. i + 1) (index_of x ys))"

definition re_b :: "string \<Rightarrow> int option" where
  "re_b s = map_option (\<lambda>i. i + 1) (index_of (map to_lower s) month_names)"

fun re_y :: "string \<Rightarrow> int option" where
  "re_y [a, b] = (if is_digit a \<and> is_digit b then Some (10 * digit_val a + digit_val b) else None)"
| "re_y _ = None"

fun re_H :: "string \<Rightarrow> int option" where
  "re_H [a, b] =
     (if a = CHR ''2'' \<and> b \<in> set ''0123'' then Some (20 + digit_val b)
      else if a \<in> set ''01'' \<and> is_digit b then Some (10 * digit_val a + digit_val b)
      else None)"
| "re_H [a] = (if is_digit a then Some (digit_val a) else None)"
| "re_H _ = None"

fun re_M :: "string \<Rightarrow> int option" where
  "re_M [a, b] =
     (if a \<in> set ''012345'' \<and> is_digit b then Some (10 * digit_val a + digit_val b) else None)"
| "re_M [a] = (if is_digit a then Some (digit_val a) else None)"
| "re_M _ = None"

definition split_at :: "char \<Rightarrow> string \<Rightarrow> (string \<times> string) option" where
  "split_at d s =
     (case dropWhile (\<lambda>c. c \<noteq> d) s of
        [] \<Rightarrow> None
      | _ # rest \<Rightarrow> Some (takeWhile (\<lambda>c. c \<noteq> d) s, rest))"

definition is_leap :: "int \<Rightarrow> bool" where
  "is_leap y = (y mod 4 = 0 \<and> (y mod 100 \<noteq> 0 \<or> y mod 400 = 0))"

definition days_in_month :: "int \<Rightarrow> int \<Rightarrow> int" where
  "days_in_month y m =
     (if m = 2 then (if is_leap y then 29 else 28)
      else if m \<in> set [4, 6, 9, 11] then 30 else 31)"

definition days_from_civil :: "int \<Rightarrow> int \<Rightarrow> int \<Rightarrow> int" where
  "days_from_civil y m d =
     (let y' = (if m \<le> 2 then y - 1 else y);
          era = y' div 400;
          yoe = y' - era * 400;
          doy = (153 * (if m > 2 then m - 3 else m + 9) + 2) div 5 + d - 1;
          doe = yoe * 365 + yoe div 4 - yoe div 100 + doy
      in era * 146097 + doe - 719468)"

definition strptime :: "string \<Rightarrow> timestamp option" where
  "strptime s =
     (case split_at CHR ''/'' s of
        None \<Rightarrow> None
      | Some (fd, s1) \<Rightarrow>
          (case split_at CHR ''/'' s1 of
             None \<Rightarrow> None
           | Some (fb, s2) \<Rightarrow>
               (let s3 = dropWhile is_space (drop 2 s2) in
                if s3 = drop 2 s2 then None
                else
                  (case split_at CHR '':'' s3 of
                     None \<Rightarrow> None
                   | Some (fH, fM) \<Rightarrow>
                       (case (re_d fd, re_b fb, re_y (take 2 s2), re_H fH, re_M fM) of
                          (Some d, Some b, Some y, Some H, Some M) \<Rightarrow>
                            (let year = (if y \<le> 68 then 2000 + y else 1900 + y) in
                             if d \<le> days_in_month year b
                             then Some (days_from_civil year b d * 86400 + H * 3600 + M * 60)
                             else None)
                        | _ \<Rightarrow> None)))))"

fun pd_to_datetime :: "cell \<Rightarrow> timestamp option" where
  "pd_to_datetime (Str s) = strptime s"
| "pd_to_datetime NaN = None"

section \<open>Sidebar filters (lines 82-119)\<close>

text \<open>
  Lines 82-83, \<^verbatim>\<open>df['Created'].min().date()\<close> and the same with \<^verbatim>\<open>max\<close>: the
  minimum skips NaT, is NaT when no value is left, and the date of NaT is NaT. The
  date of a timestamp drops the time of day.
\<close>

definition dt_date :: "timestamp option \<Rightarrow> date option" where
  "dt_date t = map_option (\<lambda>s. s div 86400) t"

definition min_date :: "(timestamp option, 'z) issue_scheme list \<Rightarrow> date option" where
  "min_date df =
     (case List.map_filter Created df of
        [] \<Rightarrow> None
      | t # ts \<Rightarrow> dt_date (Some (fold min ts t)))"

definition max_date :: "(timestamp option, 'z) issue_scheme list \<Rightarrow> date option" where
  "max_date df =
     (case List.map_filter Created df of
        [] \<Rightarrow> None
      | t # ts \<Rightarrow> dt_date (Some (fold max ts t)))"

text \<open>
  Lines 111-112 compare the column \<^verbatim>\<open>Created.dt.date\<close> with a date, element by
  element; where the element is NaT the comparison is False.
\<close>

definition date_ge :: "date option \<Rightarrow> date \<Rightarrow> bool" where
  "date_ge x d = (case x of None \<Rightarrow> False | Some a \<Rightarrow> a \<ge> d)"

definition date_le :: "date option \<Rightarrow> date \<Rightarrow> bool" where
  "date_le x d = (case x of None \<Rightarrow> False | Some a \<Rightarrow> a \<le> d)"

text \<open>
  Lines 109-113. \<^verbatim>\<open>date_range\<close> is the tuple the date picker returns: two dates,
  or fewer while the user is still choosing.
\<close>

definition filter_date ::
  "date list \<Rightarrow> (timestamp option, 'z) issue_scheme list \<Rightarrow> (timestamp option, 'z) issue_scheme list" where
  "filter_date date_range df =
     (if length date_range = 2
      then filter (\<lambda>r. date_ge (dt_date (Created r)) (date_range ! 0)
                      \<and> date_le (dt_date (Created r)) (date_range ! 1)) df
      else df)"

text \<open>
  Lines 115-116. The options of the multiselect are \<^verbatim>\<open>'Todos'\<close> and the values of
  the Status column, so a selection is a list of cells; \<^verbatim>\<open>isin\<close> matches NaN with NaN.
\<close>

definition filter_status ::
  "cell list \<Rightarrow> ('d, 'z) issue_scheme list \<Rightarrow> ('d, 'z) issue_scheme list" where
  "filter_status selected_status df =
     (if Str ''Todos'' \<notin> set selected_status \<and> selected_status \<noteq> []
      then filter (\<lambda>r. Status r \<in> set selected_status) df
      else df)"

text \<open>Lines 118-119, the same on the column Categoria.\<close>

definition filter_tipo :: "string list \<Rightarrow> 'z df_row_scheme list \<Rightarrow> 'z df_row_scheme list" where
  "filter_tipo selected_tipo df =
     (if ''Todos'' \<notin> set selected_tipo \<and> selected_tipo \<noteq> []
      then filter (\<lambda>r. Categoria r \<in> set selected_tipo) df
      else df)"

text \<open>
  Lines 84-89: the date picker, called with \<^verbatim>\<open>value=(min_date, max_date)\<close> and the same
  two dates as bounds. A widget that the user has not touched returns its
  \<^verbatim>\<open>value\<close>; afterwards it returns what the user picked, a tuple of two dates, or of
  fewer while the range is incomplete. \<open>picked\<close> is that state of the widget, \<open>None\<close>
  when untouched. (The widget offers only dates within the bounds; the model does not
  need that.)
\<close>

definition date_input :: "date list \<Rightarrow> date list option \<Rightarrow> date list" where
  "date_input val picked = (case picked of None \<Rightarrow> val | Some ds \<Rightarrow> ds)"

text \<open>Lines 108-119 in the order of the script: date, then status, then category.\<close>

definition df_filtered ::
  "date list \<Rightarrow> cell list \<Rightarrow> string list \<Rightarrow> 'z df_row_scheme list \<Rightarrow> 'z df_row_scheme list" where
  "df_filtered date_range selected_status selected_tipo df =
     filter_tipo selected_tipo (filter_status selected_status (filter_date date_range df))"

section \<open>Headline figures (lines 131-178)\<close>

datatype py_error = ZeroDivisionError | ValueError | TypeError | StreamlitAPIException

definition total_issues :: "'a list \<Rightarrow> nat" where
  "total_issues view = length view"

definition done_issues :: "('d, 'z) issue_scheme list \<Rightarrow> nat" where
  "done_issues view = length (filter (\<lambda>r. Status r = Str ''Done'') view)"

definition completion_rate :: "('d, 'z) issue_scheme list \<Rightarrow> rat" where
  "completion_rate view =
     (if total_issues view > 0
      then of_nat (done_issues view) / of_nat (total_issues view) * 100
      else 0)"

definition historias :: "'z df_row_scheme list \<Rightarrow> nat" where
  "historias view = length (filter (\<lambda>r. Categoria r = Historias) view)"

definition bugs :: "'z df_row_scheme list \<Rightarrow> nat" where
  "bugs view = length (filter (\<lambda>r. Categoria r = ''Bugs'') view)"

definition ratio_valor_divida :: "'z df_row_scheme list \<Rightarrow> rat" where
  "ratio_valor_divida view =
     (if bugs view > 0 then of_nat (historias view) / of_nat (bugs view) else 0)"

text \<open>
  \<^verbatim>\<open>Series.median()\<close>: NaN values are skipped; the median of what is left is the
  middle value, or the mean of the two middle values, and NaN when nothing is left.
\<close>

definition median :: "rat option list \<Rightarrow> rat option" where
  "median xs =
     (let vs = sort (List.map_filter id xs); n = length vs
      in if n = 0 then None
         else if odd n then Some (vs ! (n div 2))
         else Some ((vs ! (n div 2 - 1) + vs ! (n div 2)) / 2))"

text \<open>Line 141: the median over \<^verbatim>\<open>resolved_df\<close>, or the placeholder 0.\<close>

definition lead_time_median :: "resolved_row list \<Rightarrow> rat option" where
  "lead_time_median resolved_df =
     (if length resolved_df > 0 then median (map Lead_Time_Days resolved_df) else Some 0)"

definition wip :: "('d, 'z) issue_scheme list \<Rightarrow> nat" where
  "wip view =
     length (filter (\<lambda>r. Status r \<notin> set [Str ''Done'', Str ''Canceled'', Str ''Cancelado'']) view)"

text \<open>
  Line 169, the value of the fourth card: \<^verbatim>\<open>bugs/total_issues*100\<close>, a Python
  division with no guard.
\<close>

definition taxa_de_bugs :: "'z df_row_scheme list \<Rightarrow> py_error + rat" where
  "taxa_de_bugs view =
     (if total_issues view = 0 then Inl ZeroDivisionError
      else Inr (of_nat (bugs view) / of_nat (total_issues view) * 100))"

text \<open>
  The five cards are drawn in order; a card already drawn stays on the page when a
  later one raises. The result is the cards drawn and the exception that stopped the
  script, if any.
\<close>

datatype metric =
  Taxa_de_Conclusao rat
| Lead_Time_mediana "rat option"
| Razao_Valor_Divida rat
| Taxa_de_Bugs rat
| WIP_Atual nat

definition metric_cards ::
  "'z df_row_scheme list \<Rightarrow> resolved_row list \<Rightarrow> metric list \<times> py_error option" where
  "metric_cards view resolved_df =
     (let drawn = [Taxa_de_Conclusao (completion_rate view),
                   Lead_Time_mediana (lead_time_median resolved_df),
                   Razao_Valor_Divida (ratio_valor_divida view)]
      in case taxa_de_bugs view of
           Inl e \<Rightarrow> (drawn, Some e)
         | Inr b \<Rightarrow> (drawn @ [Taxa_de_Bugs b, WIP_Atual (wip view)], None))"

text \<open>
  The script from the uploaded table and the state of the three widgets to the cards
  (lines 71-178).

  When the table has a created date, lines 82-89 give the picker real dates and
  \<^verbatim>\<open>date_range\<close> is what the picker returns.

  When no Created value parses (or the table has no row), \<^verbatim>\<open>min_date\<close> and
  \<^verbatim>\<open>max_date\<close> are NaT and the picker is called with NaT as value and as bounds. What
  the libraries do with that is not in the script; it is the parameter \<open>on_nat\<close>:
  \<open>Some e\<close> when lines 82-89 raise the exception \<open>e\<close>, before any card is drawn, and
  \<open>None\<close> when the picker returns as it does on real dates. In the second case an
  untouched picker returns its value \<^verbatim>\<open>(NaT, NaT)\<close>, a tuple of two, and lines 110-113
  compare the date of every row with NaT: an ordering comparison with NaT is False, so
  the mask is False on every row.
\<close>

definition dashboard ::
  "(cell \<Rightarrow> timestamp option) \<Rightarrow> py_error option \<Rightarrow> cell issue list
     \<Rightarrow> date list option \<Rightarrow> cell list \<Rightarrow> string list \<Rightarrow> metric list \<times> py_error option" where
  "dashboard to_datetime on_nat csv picked selected_status selected_tipo =
     (case load_data to_datetime csv of
        (df, resolved_df) \<Rightarrow>
          (case (min_date df, max_date df) of
             (Some lo, Some hi) \<Rightarrow>
               metric_cards
                 (df_filtered (date_input [lo, hi] picked) selected_status selected_tipo df)
                 resolved_df
           | _ \<Rightarrow>
               (case on_nat of
                  Some e \<Rightarrow> ([], Some e)
                | None \<Rightarrow>
                    metric_cards
                      (filter_tipo selected_tipo (filter_status selected_status
                         (case picked of
                            None \<Rightarrow> filter (\<lambda>r. False) df
                          | Some ds \<Rightarrow> filter_date ds df)))
                      resolved_df)))"

section \<open>Cumulative flow (lines 331-333)\<close>

text \<open>
  \<^verbatim>\<open>sort_values('Created')\<close>: ascending, rows without a date last. The order the
  library gives to rows with equal dates is not fixed; here they keep their order.
\<close>

definition sort_values_Created ::
  "(timestamp option, 'z) issue_scheme list \<Rightarrow> (timestamp option, 'z) issue_scheme list" where
  "sort_values_Created df =
     sort_key (\<lambda>r. case Created r of Some t \<Rightarrow> t | None \<Rightarrow> 0) (filter (\<lambda>r. Created r \<noteq> None) df)
     @ filter (\<lambda>r. Created r = None) df"

definition Cumulative_Total :: "'a list \<Rightarrow> nat list" where
  "Cumulative_Total df_sorted = [1 ..< length df_sorted + 1]"

fun cumsum :: "nat \<Rightarrow> bool list \<Rightarrow> nat list" where
  "cumsum acc [] = []"
| "cumsum acc (b # bs) = (acc + (if b then 1 else 0)) # cumsum (acc + (if b then 1 else 0)) bs"

definition Cumulative_Done :: "('d, 'z) issue_scheme list \<Rightarrow> nat list" where
  "Cumulative_Done df_sorted = cumsum 0 (map (\<lambda>r. Status r = Str ''Done'') df_sorted)"

section \<open>Export and re-ingestion (line 377, lines 37-59)\<close>

text \<open>
  \<^verbatim>\<open>to_csv(index=False)\<close> writes a missing value as an empty field and a string as
  itself, quoted where the text needs it; \<^verbatim>\<open>read_csv\<close> undoes the quoting and reads
  as missing every field that is one of its default missing-value markers. A
  timestamp is written by \<open>isoformat\<close>, the library's rendering. The exported columns
  Categoria and Month are not read by \<^verbatim>\<open>load_data\<close>, which computes Categoria
  again. (A text column whose every field reads as a number or a boolean comes back
  with that type; the cell type here keeps its text.)
\<close>

definition na_values :: "string list" where
  "na_values = ['''', ''#N/A'', ''#N/A N/A'', ''#NA'', ''-1.#IND'', ''-1.#QNAN'', ''-NaN'',
     ''-nan'', ''1.#IND'', ''1.#QNAN'', ''<NA>'', ''N/A'', ''NA'', ''NULL'', ''NaN'', ''None'',
     ''n/a'', ''nan'', ''null'']"

definition write_cell :: "cell \<Rightarrow> string" where
  "write_cell c = (case c of Str s \<Rightarrow> s | NaN \<Rightarrow> '''')"

definition write_date :: "(timestamp \<Rightarrow> string) \<Rightarrow> timestamp option \<Rightarrow> string" where
  "write_date isoformat t = (case t of Some s \<Rightarrow> isoformat s | None \<Rightarrow> '''')"

definition read_field :: "string \<Rightarrow> cell" where
  "read_field s = (if s \<in> set na_values then NaN else Str s)"

definition to_csv_read_csv :: "(timestamp \<Rightarrow> string) \<Rightarrow> 'z df_row_scheme \<Rightarrow> cell issue" where
  "to_csv_read_csv isoformat r =
     \<lparr>Issue_key = read_field (write_cell (Issue_key r)),
      Summary = read_field (write_cell (Summary r)),
      Issue_Type = read_field (write_cell (Issue_Type r)),
      Status = read_field (write_cell (Status r)),
      Priority = read_field (write_cell (Priority r)),
      Assignee = read_field (write_cell (Assignee r)),
      Created = read_field (write_date isoformat (Created r)),
      Updated = read_field (write_date isoformat (Updated r)),
      Resolved = read_field (write_date isoformat (Resolved r))\<rparr>"

definition reingest ::
  "(cell \<Rightarrow> timestamp option) \<Rightarrow> (timestamp \<Rightarrow> string) \<Rightarrow> 'z df_row_scheme list
     \<Rightarrow> df_row list \<times> resolved_row list" where
  "reingest to_datetime isoformat view = load_data to_datetime (map (to_csv_read_csv isoformat) view)"

section \<open>Example tables\<close>

text \<open>
  Three rows of an export, used where a statement is evaluated on concrete input: a
  finished story (created 11 February 2026 at 09:00, resolved two days later), a bug in
  progress, and a finished bug whose Created value is not in the fixed format.
\<close>

definition csv_scenario :: "cell issue" where
  "csv_scenario =
     \<lparr>Issue_key = Str ''PROJ-2'', Summary = Str ''Logout'', Issue_Type = Str Historia,
      Status = Str ''Done'', Priority = Str ''Low'', Assignee = Str ''Ana'',
      Created = Str ''11/Feb/26 09:00'', Updated = NaN,
      Resolved = Str ''13/Feb/26 09:00''\<rparr>"

definition csv_open_bug :: "cell issue" where
  "csv_open_bug =
     \<lparr>Issue_key = Str ''PROJ-3'', Summary = Str ''Crash'', Issue_Type = Str ''Bug'',
      Status = Str ''In Progress'', Priority = Str ''High'', Assignee = Str ''Rui'',
      Created = Str ''12/Feb/26 10:30'', Updated = NaN, Resolved = NaN\<rparr>"

definition csv_unparsable_created :: "cell issue" where
  "csv_unparsable_created =
     \<lparr>Issue_key = Str ''PROJ-1'', Summary = Str ''Login'', Issue_Type = Str ''Bug'',
      Status = Str ''Done'', Priority = Str ''High'', Assignee = NaN,
      Created = Str ''2026-02-11 09:00'', Updated = NaN,
      Resolved = Str ''13/Feb/26 09:00''\<rparr>"

section \<open>Fields of the derived rows\<close>

lemma py_in_sublist: "py_in sub s \<longleftrightarrow> sublist sub s"
  by (induction s) (auto simp: sublist_Cons_right)

lemma Categoria_with_categoria: "Categoria (with_categoria r) = categoria (Issue_Type r)"
  by (simp add: with_categoria_def issue.defs df_row.defs)

lemma Issue_Type_with_categoria: "Issue_Type (with_categoria r) = Issue_Type r"
  by (simp add: with_categoria_def issue.defs df_row.defs)

lemma with_categoria_fields:
  "Issue_key (with_categoria r) = Issue_key r"
  "Summary (with_categoria r) = Summary r"
  "Status (with_categoria r) = Status r"
  "Priority (with_categoria r) = Priority r"
  "Assignee (with_categoria r) = Assignee r"
  "Created (with_categoria r) = Created r"
  "Updated (with_categoria r) = Updated r"
  "Resolved (with_categoria r) = Resolved r"
  by (simp_all add: with_categoria_def issue.defs df_row.defs)

lemma Issue_Type_parse_dates: "Issue_Type (parse_dates p r) = Issue_Type r"
  by (simp add: parse_dates_def)

lemma Resolved_with_lead_time: "Resolved (with_lead_time r) = Resolved r"
  by (simp add: with_lead_time_def issue.defs resolved_row.defs)

lemma Created_with_lead_time: "Created (with_lead_time r) = Created r"
  by (simp add: with_lead_time_def issue.defs resolved_row.defs)

lemma Lead_Time_Days_with_lead_time:
  "Lead_Time_Days (with_lead_time r) = lead_time_days (Resolved r) (Created r)"
  by (simp add: with_lead_time_def issue.defs resolved_row.defs)

text \<open>
  Ingestion keeps every row and every text column; a date column holds, row by row,
  what the parser made of the cell, so a value that does not parse turns that one
  field into NaT.
\<close>

lemma load_data_retains_rows:
  "length (fst (load_data p csv)) = length csv
   \<and> map Issue_key (fst (load_data p csv)) = map Issue_key csv
   \<and> map Summary (fst (load_data p csv)) = map Summary csv
   \<and> map Issue_Type (fst (load_data p csv)) = map Issue_Type csv
   \<and> map Status (fst (load_data p csv)) = map Status csv
   \<and> map Priority (fst (load_data p csv)) = map Priority csv
   \<and> map Assignee (fst (load_data p csv)) = map Assignee csv
   \<and> map Created (fst (load_data p csv)) = map (\<lambda>r. p (Created r)) csv
   \<and> map Updated (fst (load_data p csv)) = map (\<lambda>r. p (Updated r)) csv
   \<and> map Resolved (fst (load_data p csv)) = map (\<lambda>r. p (Resolved r)) csv"
  by (simp add: load_data_def Let_def o_def with_categoria_fields Issue_Type_with_categoria
      parse_dates_def)

lemma resolved_df_rows:
  "snd (load_data p csv) =
     map (\<lambda>r. with_lead_time (parse_dates p r)) (filter (\<lambda>r. p (Resolved r) \<noteq> None) csv)"
  by (simp add: load_data_def Let_def filter_map o_def parse_dates_def)

text \<open>The dates of the example rows under the fixed format.\<close>

lemma strptime_11_Feb: "strptime ''11/Feb/26 09:00'' = Some 1770800400"
  by code_simp

lemma strptime_13_Feb: "strptime ''13/Feb/26 09:00'' = Some 1770973200"
  by code_simp

lemma strptime_iso: "strptime ''2026-02-11 09:00'' = None"
  by code_simp

section \<open>Category derivation\<close>

text \<open>
  C1. In the table returned by \<^verbatim>\<open>load_data\<close> the column Categoria is, row by row,
  the function \<open>categoria\<close> of the Issue Type cell of the input row. That function
  takes one of three values: the story category when the issue type is exactly the
  story label; otherwise the bug category when the text of the issue type has
  \<^verbatim>\<open>Bug\<close> as a contiguous, case-sensitive substring; otherwise the other category.
\<close>

theorem categoria_three_way:
  "map Categoria (fst (load_data p csv)) = map (\<lambda>r. categoria (Issue_Type r)) csv
   \<and> categoria x \<in> {Historias, ''Bugs'', ''Outros''}
   \<and> (x = Str Historia \<longrightarrow> categoria x = Historias)
   \<and> (x \<noteq> Str Historia \<and> sublist ''Bug'' (py_str x) \<longrightarrow> categoria x = ''Bugs'')
   \<and> (x \<noteq> Str Historia \<and> \<not> sublist ''Bug'' (py_str x) \<longrightarrow> categoria x = ''Outros'')"
  by (simp add: load_data_def Let_def Categoria_with_categoria Issue_Type_parse_dates
      categoria_def py_in_sublist o_def)

text \<open>The three cases at the story label, at a type that contains Bug, and at a missing type.\<close>

theorem categoria_three_way_witness:
  "categoria (Str Historia) = Historias
   \<and> Str ''Sub-Bug'' \<noteq> Str Historia \<and> sublist ''Bug'' (py_str (Str ''Sub-Bug''))
   \<and> categoria (Str ''Sub-Bug'') = ''Bugs''
   \<and> NaN \<noteq> Str Historia \<and> \<not> sublist ''Bug'' (py_str NaN) \<and> categoria NaN = ''Outros''"
proof -
  have a: "Str ''Sub-Bug'' \<noteq> Str Historia \<and> sublist ''Bug'' (py_str (Str ''Sub-Bug''))"
    by (simp add: Historia_def py_in_sublist [symmetric])
  have b: "NaN \<noteq> Str Historia \<and> \<not> sublist ''Bug'' (py_str NaN)"
    by (simp add: py_in_sublist [symmetric])
  show ?thesis
    using a b
      categoria_three_way [of "\<lambda>_. None" "[]" "Str Historia"]
      categoria_three_way [of "\<lambda>_. None" "[]" "Str ''Sub-Bug''"]
      categoria_three_way [of "\<lambda>_. None" "[]" NaN]
    by simp
qed

section \<open>Lead time\<close>

text \<open>
  A row whose Resolved value parses and whose Created value does not is a row of
  \<^verbatim>\<open>resolved_df\<close>, and its lead time is NaN: a non-null resolved timestamp does not
  make the lead time a number.
\<close>

theorem lead_time_nan_counterexample:
  "map Resolved (snd (load_data pd_to_datetime [csv_unparsable_created])) = [Some 1770973200]
   \<and> map Lead_Time_Days (snd (load_data pd_to_datetime [csv_unparsable_created])) = [None]"
  by (simp add: resolved_df_rows csv_unparsable_created_def strptime_13_Feb strptime_iso
      Resolved_with_lead_time Lead_Time_Days_with_lead_time parse_dates_def lead_time_days_def)

text \<open>
  C2, amended. The rows of \<^verbatim>\<open>resolved_df\<close> are exactly the input rows whose
  Resolved value parses, in their order. In every such row the lead time is the
  difference resolved minus created in seconds divided by 86400, with no rounding to
  whole days, when the created timestamp is present, and NaN when it is not. The row
  created on 11/Feb/26 09:00 and resolved on 13/Feb/26 09:00 has the lead time 2.
\<close>

theorem lead_time_resolved_rows:
  "snd (load_data p csv) =
     map (\<lambda>r. with_lead_time (parse_dates p r)) (filter (\<lambda>r. p (Resolved r) \<noteq> None) csv)
   \<and> (\<forall>r \<in> set (snd (load_data p csv)). \<exists>t. Resolved r = Some t \<and>
         Lead_Time_Days r =
           (case Created r of None \<Rightarrow> None | Some c \<Rightarrow> Some (of_int (t - c) / 86400)))
   \<and> map Lead_Time_Days (snd (load_data pd_to_datetime [csv_scenario])) = [Some 2]"
proof (intro conjI ballI)
  show "snd (load_data p csv) =
     map (\<lambda>r. with_lead_time (parse_dates p r)) (filter (\<lambda>r. p (Resolved r) \<noteq> None) csv)"
    by (rule resolved_df_rows)
next
  fix r assume "r \<in> set (snd (load_data p csv))"
  then obtain q where q: "r = with_lead_time (parse_dates p q)" "p (Resolved q) \<noteq> None"
    by (auto simp: resolved_df_rows)
  then obtain t where t: "p (Resolved q) = Some t" by auto
  show "\<exists>t. Resolved r = Some t \<and>
         Lead_Time_Days r =
           (case Created r of None \<Rightarrow> None | Some c \<Rightarrow> Some (of_int (t - c) / 86400))"
    using q t
    by (simp add: Resolved_with_lead_time Created_with_lead_time Lead_Time_Days_with_lead_time
        parse_dates_def lead_time_days_def split: option.splits)
next
  show "map Lead_Time_Days (snd (load_data pd_to_datetime [csv_scenario])) = [Some 2]"
    by (simp add: resolved_df_rows csv_scenario_def strptime_11_Feb strptime_13_Feb
        Lead_Time_Days_with_lead_time parse_dates_def lead_time_days_def)
qed

text \<open>The scenario row is a row of \<^verbatim>\<open>resolved_df\<close>, with both timestamps and the lead time 2.\<close>

theorem lead_time_resolved_rows_witness:
  "with_lead_time (parse_dates pd_to_datetime csv_scenario)
      \<in> set (snd (load_data pd_to_datetime [csv_scenario]))
   \<and> Resolved (with_lead_time (parse_dates pd_to_datetime csv_scenario)) = Some 1770973200
   \<and> Created (with_lead_time (parse_dates pd_to_datetime csv_scenario)) = Some 1770800400
   \<and> Lead_Time_Days (with_lead_time (parse_dates pd_to_datetime csv_scenario)) = Some 2"
proof -
  have r: "Resolved (parse_dates pd_to_datetime csv_scenario) = Some 1770973200"
    by (simp add: parse_dates_def csv_scenario_def strptime_13_Feb)
  have c: "Created (parse_dates pd_to_datetime csv_scenario) = Some 1770800400"
    by (simp add: parse_dates_def csv_scenario_def strptime_11_Feb)
  have m: "with_lead_time (parse_dates pd_to_datetime csv_scenario)
      \<in> set (snd (load_data pd_to_datetime [csv_scenario]))"
    using r by (simp add: resolved_df_rows parse_dates_def)
  show ?thesis
    using m r c lead_time_resolved_rows [of pd_to_datetime "[csv_scenario]"]
    by (auto simp: Resolved_with_lead_time Created_with_lead_time)
qed

section \<open>The filters\<close>

lemma date_between:
  "date_ge (dt_date x) a \<and> date_le (dt_date x) b
     \<longleftrightarrow> (\<exists>t. x = Some t \<and> a \<le> t div 86400 \<and> t div 86400 \<le> b)"
  by (cases x) (auto simp: date_ge_def date_le_def dt_date_def)

text \<open>
  C5. With a complete range the date filter keeps exactly the rows that have a
  created timestamp whose day lies between the two endpoints, both included; a row
  without a created timestamp is not kept. The day of a timestamp does not depend on
  its time of day. With a range of any other length the table is left as it is.
\<close>

theorem filter_date_inclusive:
  "filter_date [start, stop] df =
     filter (\<lambda>r. \<exists>t. Created r = Some t \<and> start \<le> t div 86400 \<and> t div 86400 \<le> stop) df
   \<and> (Created r = None \<longrightarrow> r \<notin> set (filter_date [start, stop] df))
   \<and> (0 \<le> s \<and> s < 86400 \<longrightarrow> dt_date (Some (d * 86400 + s)) = Some d)
   \<and> (length date_range \<noteq> 2 \<longrightarrow> filter_date date_range df = df)"
proof (intro conjI impI)
  show a: "filter_date [start, stop] df =
     filter (\<lambda>r. \<exists>t. Created r = Some t \<and> start \<le> t div 86400 \<and> t div 86400 \<le> stop) df"
    by (simp add: filter_date_def date_between)
  show "r \<notin> set (filter_date [start, stop] df)" if "Created r = None"
    using that by (simp add: a)
  show "dt_date (Some (d * 86400 + s)) = Some d" if "0 \<le> s \<and> s < 86400"
  proof -
    have "(d * 86400 + s) div 86400 = d"
      using that by simp
    then show ?thesis by (simp add: dt_date_def)
  qed
  show "filter_date date_range df = df" if "length date_range \<noteq> 2"
    using that by (simp add: filter_date_def)
qed

text \<open>
  A row without a created date is dropped by a complete range and kept by a range of
  one date; 09:00 on day 20495 is on day 20495.
\<close>

theorem filter_date_inclusive_witness:
  "Created (parse_dates pd_to_datetime csv_unparsable_created) = None
   \<and> parse_dates pd_to_datetime csv_unparsable_created
       \<notin> set (filter_date [20495, 20496] [parse_dates pd_to_datetime csv_unparsable_created])
   \<and> (0::int) \<le> 32400 \<and> (32400::int) < 86400
   \<and> dt_date (Some (20495 * 86400 + 32400)) = Some 20495
   \<and> length [20495::int] \<noteq> 2
   \<and> filter_date [20495] [parse_dates pd_to_datetime csv_unparsable_created]
       = [parse_dates pd_to_datetime csv_unparsable_created]"
proof -
  have c: "Created (parse_dates pd_to_datetime csv_unparsable_created) = None"
    by (simp add: parse_dates_def csv_unparsable_created_def strptime_iso)
  show ?thesis
    using c filter_date_inclusive [of 20495 20496
        "[parse_dates pd_to_datetime csv_unparsable_created]"
        "parse_dates pd_to_datetime csv_unparsable_created" 32400 20495 "[20495]"]
    by simp
qed

text \<open>Each filter is \<open>filter\<close> with a predicate on the row, true when the filter is off.\<close>

lemma filter_date_pred:
  "filter_date dr df =
     filter (\<lambda>r. length dr = 2 \<longrightarrow>
       date_ge (dt_date (Created r)) (dr ! 0) \<and> date_le (dt_date (Created r)) (dr ! 1)) df"
  by (simp add: filter_date_def)

lemma filter_status_pred:
  "filter_status ss df =
     filter (\<lambda>r. Str ''Todos'' \<notin> set ss \<and> ss \<noteq> [] \<longrightarrow> Status r \<in> set ss) df"
  by (simp add: filter_status_def)

lemma filter_tipo_pred:
  "filter_tipo st df =
     filter (\<lambda>r. ''Todos'' \<notin> set st \<and> st \<noteq> [] \<longrightarrow> Categoria r \<in> set st) df"
  by (simp add: filter_tipo_def)

text \<open>
  C6. For every table and every state of the three widgets, the three filters applied
  in any of the five other orders give the table the script computes (date, status,
  category): the same rows in the same order.
\<close>

theorem filters_commute:
  "filter_tipo st (filter_date dr (filter_status ss df)) = df_filtered dr ss st df
   \<and> filter_status ss (filter_tipo st (filter_date dr df)) = df_filtered dr ss st df
   \<and> filter_status ss (filter_date dr (filter_tipo st df)) = df_filtered dr ss st df
   \<and> filter_date dr (filter_status ss (filter_tipo st df)) = df_filtered dr ss st df
   \<and> filter_date dr (filter_tipo st (filter_status ss df)) = df_filtered dr ss st df"
  unfolding df_filtered_def filter_date_pred filter_status_pred filter_tipo_pred filter_filter
  by (intro conjI filter_cong refl) blast+

text \<open>
  C9. An empty selection in the status multiselect, or in the category multiselect,
  switches that filter off: every row is kept. With both empty the filtered view is
  what the date filter leaves.
\<close>

theorem empty_selection_keeps_all:
  "filter_status [] df = df
   \<and> filter_tipo [] view = view
   \<and> df_filtered dr [] [] view = filter_date dr view"
  by (simp add: filter_status_def filter_tipo_def df_filtered_def)

section \<open>Headline figures\<close>

text \<open>
  The guarded figures on degenerate input: the completion rate of an empty view, the
  ratio of a view without bugs and the median of an empty \<^verbatim>\<open>resolved_df\<close> are 0.
\<close>

lemma guarded_figures:
  "completion_rate [] = 0"
  "bugs view = 0 \<Longrightarrow> ratio_valor_divida view = 0"
  "lead_time_median [] = Some 0"
  by (simp_all add: completion_rate_def total_issues_def ratio_valor_divida_def
      lead_time_median_def)

lemma df_filtered_Nil: "df_filtered dr ss st [] = []"
  by (simp add: df_filtered_def filter_tipo_def filter_status_def filter_date_def)

lemma metric_cards_Nil: "snd (metric_cards [] rdf) = Some ZeroDivisionError"
  by (simp add: metric_cards_def taxa_de_bugs_def total_issues_def)

lemma metric_cards_second:
  "fst (metric_cards view rdf) ! Suc 0 = Lead_Time_mediana (lead_time_median rdf)"
  by (simp add: metric_cards_def Let_def split: sum.splits)

text \<open>The picker gets real dates exactly when some row has a created date.\<close>

lemma min_date_None: "min_date df = None \<longleftrightarrow> List.map_filter Created df = []"
  by (simp add: min_date_def dt_date_def split: list.splits)

lemma max_date_None: "max_date df = None \<longleftrightarrow> List.map_filter Created df = []"
  by (simp add: max_date_def dt_date_def split: list.splits)

lemma dashboard_dated:
  assumes "min_date (fst (load_data p csv)) = Some lo" and "max_date (fst (load_data p csv)) = Some hi"
  shows "dashboard p on_nat csv picked ss st =
     metric_cards (df_filtered (date_input [lo, hi] picked) ss st (fst (load_data p csv)))
       (snd (load_data p csv))"
  using assms by (cases "load_data p csv") (simp add: dashboard_def)

lemma dashboard_undated:
  assumes "min_date (fst (load_data p csv)) = None"
  shows "dashboard p on_nat csv picked ss st =
     (case on_nat of
        Some e \<Rightarrow> ([], Some e)
      | None \<Rightarrow>
          metric_cards
            (filter_tipo st (filter_status ss
               (case picked of
                  None \<Rightarrow> filter (\<lambda>r. False) (fst (load_data p csv))
                | Some ds \<Rightarrow> filter_date ds (fst (load_data p csv)))))
            (snd (load_data p csv)))"
  using assms by (cases "load_data p csv") (simp add: dashboard_def split: option.splits)

text \<open>
  C3. On the table of the finished story and the bug in progress, with the date picker
  untouched (its default is the range from 11 to 12 February 2026), the status Done and
  the category Bugs selected, no row is left. The first three cards are drawn, with the
  completion rate 0 and the ratio 0, and the bug percentage of the fourth card divides
  by the row count 0: the script stops with ZeroDivisionError.
\<close>

theorem taxa_de_bugs_empty_view_raises:
  "min_date (fst (load_data pd_to_datetime [csv_scenario, csv_open_bug])) = Some 20495
   \<and> max_date (fst (load_data pd_to_datetime [csv_scenario, csv_open_bug])) = Some 20496
   \<and> dashboard pd_to_datetime on_nat [csv_scenario, csv_open_bug] None [Str ''Done''] [''Bugs'']
     = ([Taxa_de_Conclusao 0, Lead_Time_mediana (Some 2), Razao_Valor_Divida 0],
        Some ZeroDivisionError)"
proof -
  have lo: "min_date (fst (load_data pd_to_datetime [csv_scenario, csv_open_bug])) = Some 20495"
    by code_simp
  have hi: "max_date (fst (load_data pd_to_datetime [csv_scenario, csv_open_bug])) = Some 20496"
    by code_simp
  have "metric_cards
          (df_filtered (date_input [20495, 20496] None) [Str ''Done''] [''Bugs'']
             (fst (load_data pd_to_datetime [csv_scenario, csv_open_bug])))
          (snd (load_data pd_to_datetime [csv_scenario, csv_open_bug]))
      = ([Taxa_de_Conclusao 0, Lead_Time_mediana (Some 2), Razao_Valor_Divida 0],
         Some ZeroDivisionError)"
    by code_simp
  then show ?thesis
    using lo hi by (simp add: dashboard_dated [OF lo hi])
qed

section \<open>The median lead time\<close>

text \<open>
  In a sorted list the entries up to position \<open>k\<close> are at most the entry there, and
  those from position \<open>k\<close> on are at least that entry.
\<close>

lemma count_le_sorted:
  fixes s :: "rat list"
  assumes "sorted s" and "k < length s" and "s ! k \<le> x"
  shows "Suc k \<le> length (filter (\<lambda>v. v \<le> x) s)"
proof -
  have all: "\<forall>v \<in> set (take (Suc k) s). v \<le> x"
  proof
    fix v assume "v \<in> set (take (Suc k) s)"
    then obtain i where i: "i < Suc k" "i < length s" "v = s ! i"
      by (auto simp: in_set_conv_nth)
    then have "s ! i \<le> s ! k"
      using assms(1,2) by (intro sorted_nth_mono) auto
    with i assms(3) show "v \<le> x" by simp
  qed
  have "filter (\<lambda>v. v \<le> x) s
      = filter (\<lambda>v. v \<le> x) (take (Suc k) s) @ filter (\<lambda>v. v \<le> x) (drop (Suc k) s)"
    by (metis append_take_drop_id filter_append)
  also have "filter (\<lambda>v. v \<le> x) (take (Suc k) s) = take (Suc k) s"
    using all by (simp add: filter_id_conv)
  finally have "length (filter (\<lambda>v. v \<le> x) s) \<ge> length (take (Suc k) s)"
    by simp
  then show ?thesis using assms(2) by simp
qed

lemma count_ge_sorted:
  fixes s :: "rat list"
  assumes "sorted s" and "k < length s" and "x \<le> s ! k"
  shows "length s - k \<le> length (filter (\<lambda>v. x \<le> v) s)"
proof -
  have all: "\<forall>v \<in> set (drop k s). x \<le> v"
  proof
    fix v assume "v \<in> set (drop k s)"
    then obtain i where i: "i < length s - k" "v = s ! (k + i)"
      by (auto simp: in_set_conv_nth)
    then have "s ! k \<le> s ! (k + i)"
      using assms(1) by (intro sorted_nth_mono) auto
    with i assms(3) show "x \<le> v" by simp
  qed
  have "filter (\<lambda>v. x \<le> v) s
      = filter (\<lambda>v. x \<le> v) (take k s) @ filter (\<lambda>v. x \<le> v) (drop k s)"
    by (metis append_take_drop_id filter_append)
  also have "filter (\<lambda>v. x \<le> v) (drop k s) = drop k s"
    using all by (simp add: filter_id_conv)
  finally have "length (filter (\<lambda>v. x \<le> v) s) \<ge> length (drop k s)"
    by simp
  then show ?thesis by simp
qed

lemma length_filter_sort: "length (filter P (sort vs)) = length (filter P vs)"
  by (simp add: filter_sort)

lemma median_None: "List.map_filter id xs = [] \<Longrightarrow> median xs = None"
  by (simp add: median_def)

text \<open>
  What \<open>median\<close> returns when a number is left: at least half of the numbers are at
  most it and at least half are at least it; it is one of the numbers when their count
  is odd, and the mean of the two middle ones when the count is even.
\<close>

lemma median_half:
  assumes "List.map_filter id xs \<noteq> []"
  shows "\<exists>m. median xs = Some m
     \<and> length (List.map_filter id xs) \<le> 2 * length (filter (\<lambda>v. v \<le> m) (List.map_filter id xs))
     \<and> length (List.map_filter id xs) \<le> 2 * length (filter (\<lambda>v. m \<le> v) (List.map_filter id xs))
     \<and> (odd (length (List.map_filter id xs)) \<longrightarrow> m \<in> set (List.map_filter id xs))
     \<and> (even (length (List.map_filter id xs)) \<longrightarrow>
          m = (sort (List.map_filter id xs) ! (length (List.map_filter id xs) div 2 - 1)
               + sort (List.map_filter id xs) ! (length (List.map_filter id xs) div 2)) / 2)"
proof -
  define vs where "vs = List.map_filter id xs"
  define s where "s = sort vs"
  define n where "n = length vs"
  have srt: "sorted s" and len: "length s = n" and pos: "0 < n"
    using assms by (simp_all add: s_def n_def vs_def)
  have ne: "s \<noteq> []" using len pos by auto
  show ?thesis
  proof (cases "odd n")
    case True
    define m where "m = s ! (n div 2)"
    have k: "n div 2 < length s" using pos len by simp
    have med: "median xs = Some m"
      using True pos ne by (simp add: median_def Let_def vs_def [symmetric] s_def [symmetric]
          n_def [symmetric] len m_def)
    have "Suc (n div 2) \<le> length (filter (\<lambda>v. v \<le> m) s)"
      using srt k by (rule count_le_sorted) (simp add: m_def)
    then have "Suc (n div 2) \<le> length (filter (\<lambda>v. v \<le> m) vs)"
      by (simp add: s_def length_filter_sort)
    then have a: "n \<le> 2 * length (filter (\<lambda>v. v \<le> m) vs)"
      by linarith
    have "length s - n div 2 \<le> length (filter (\<lambda>v. m \<le> v) s)"
      using srt k by (rule count_ge_sorted) (simp add: m_def)
    then have "n - n div 2 \<le> length (filter (\<lambda>v. m \<le> v) vs)"
      by (simp add: s_def length_filter_sort n_def)
    then have b: "n \<le> 2 * length (filter (\<lambda>v. m \<le> v) vs)"
      by linarith
    have "m \<in> set s" using k by (simp add: m_def)
    then have c: "m \<in> set vs" by (simp add: s_def)
    show ?thesis
      using med a b c True unfolding vs_def [symmetric] n_def [symmetric] by blast
  next
    case False
    define m where "m = (s ! (n div 2 - 1) + s ! (n div 2)) / 2"
    have k: "n div 2 < length s" and k1: "n div 2 - 1 < length s"
      using pos len by simp_all
    have two: "2 \<le> n" using False pos by presburger
    have med: "median xs = Some m"
      using False pos ne by (simp add: median_def Let_def vs_def [symmetric] s_def [symmetric]
          n_def [symmetric] len m_def)
    have mono: "s ! (n div 2 - 1) \<le> s ! (n div 2)"
      using srt k by (intro sorted_nth_mono) auto
    then have lo: "s ! (n div 2 - 1) \<le> m" and hi: "m \<le> s ! (n div 2)"
      by (simp_all add: m_def field_simps)
    have "Suc (n div 2 - 1) \<le> length (filter (\<lambda>v. v \<le> m) s)"
      using srt k1 lo by (rule count_le_sorted)
    then have "Suc (n div 2 - 1) \<le> length (filter (\<lambda>v. v \<le> m) vs)"
      by (simp add: s_def length_filter_sort)
    then have a: "n \<le> 2 * length (filter (\<lambda>v. v \<le> m) vs)"
      using False two by presburger
    have "length s - n div 2 \<le> length (filter (\<lambda>v. m \<le> v) s)"
      using srt k hi by (rule count_ge_sorted)
    then have "n - n div 2 \<le> length (filter (\<lambda>v. m \<le> v) vs)"
      by (simp add: s_def length_filter_sort n_def)
    then have b: "n \<le> 2 * length (filter (\<lambda>v. m \<le> v) vs)"
      by linarith
    have d: "m = (sort vs ! (n div 2 - 1) + sort vs ! (n div 2)) / 2"
      by (simp add: m_def s_def)
    show ?thesis
      using med a b d False unfolding vs_def [symmetric] n_def [symmetric] by blast
  qed
qed

lemma map_filter_Lead_Time_Days:
  "List.map_filter id (map Lead_Time_Days rdf) = List.map_filter Lead_Time_Days rdf"
  by (induction rdf) (simp_all split: option.splits)

text \<open>
  C4. Whenever the script gets as far as the cards (the table has a created date, or
  the picker accepts NaT), the second card shows \<open>lead_time_median\<close> of the
  \<^verbatim>\<open>resolved_df\<close> that \<^verbatim>\<open>load_data\<close> returned, whatever the state of the date picker,
  the status selection and the category selection are: two runs on the same file with
  different widget states show the same value. That value is the median of the lead
  times of \<^verbatim>\<open>resolved_df\<close> that are numbers: the placeholder 0 when \<^verbatim>\<open>resolved_df\<close>
  has no row; NaN when it has rows and no lead time is a number; otherwise a number
  \<open>m\<close> such that at least half of the lead times are at most \<open>m\<close> and at least half
  are at least \<open>m\<close>, which is one of the lead times when their count is odd and the
  mean of the two middle ones of the sorted lead times when it is even.
\<close>

theorem lead_time_median_ignores_filters:
  "(min_date (fst (load_data p csv)) \<noteq> None \<or> on_nat = None \<longrightarrow>
      fst (dashboard p on_nat csv picked ss st) ! 1
        = Lead_Time_mediana (lead_time_median (snd (load_data p csv)))
      \<and> fst (dashboard p on_nat csv picked ss st) ! 1
        = fst (dashboard p on_nat csv picked' ss' st') ! 1)
   \<and> (rdf = [] \<longrightarrow> lead_time_median rdf = Some 0)
   \<and> (rdf \<noteq> [] \<and> List.map_filter Lead_Time_Days rdf = [] \<longrightarrow> lead_time_median rdf = None)
   \<and> (List.map_filter Lead_Time_Days rdf \<noteq> [] \<longrightarrow>
        (\<exists>m. lead_time_median rdf = Some m
          \<and> length (List.map_filter Lead_Time_Days rdf)
              \<le> 2 * length (filter (\<lambda>v. v \<le> m) (List.map_filter Lead_Time_Days rdf))
          \<and> length (List.map_filter Lead_Time_Days rdf)
              \<le> 2 * length (filter (\<lambda>v. m \<le> v) (List.map_filter Lead_Time_Days rdf))
          \<and> (odd (length (List.map_filter Lead_Time_Days rdf))
               \<longrightarrow> m \<in> set (List.map_filter Lead_Time_Days rdf))
          \<and> (even (length (List.map_filter Lead_Time_Days rdf)) \<longrightarrow>
               m = (sort (List.map_filter Lead_Time_Days rdf)
                      ! (length (List.map_filter Lead_Time_Days rdf) div 2 - 1)
                    + sort (List.map_filter Lead_Time_Days rdf)
                      ! (length (List.map_filter Lead_Time_Days rdf) div 2)) / 2)))"
proof (intro conjI impI)
  assume run: "min_date (fst (load_data p csv)) \<noteq> None \<or> on_nat = None"
  have card: "fst (dashboard p on_nat csv pk s1 s2) ! 1
      = Lead_Time_mediana (lead_time_median (snd (load_data p csv)))" for pk s1 s2
  proof (cases "min_date (fst (load_data p csv))")
    case None
    with run have "on_nat = None" by simp
    then show ?thesis
      by (simp add: dashboard_undated [OF None] metric_cards_second)
  next
    case (Some lo)
    then have "max_date (fst (load_data p csv)) \<noteq> None"
      by (simp add: max_date_None min_date_None [symmetric])
    then obtain hi where hi: "max_date (fst (load_data p csv)) = Some hi" by auto
    show ?thesis
      by (simp add: dashboard_dated [OF Some hi] metric_cards_second)
  qed
  show "fst (dashboard p on_nat csv picked ss st) ! 1
      = Lead_Time_mediana (lead_time_median (snd (load_data p csv)))"
    by (rule card)
  show "fst (dashboard p on_nat csv picked ss st) ! 1
      = fst (dashboard p on_nat csv picked' ss' st') ! 1"
    by (simp only: card)
next
  assume "rdf = []"
  then show "lead_time_median rdf = Some 0"
    by (simp add: lead_time_median_def)
next
  assume "rdf \<noteq> [] \<and> List.map_filter Lead_Time_Days rdf = []"
  then show "lead_time_median rdf = None"
    by (simp add: lead_time_median_def median_None map_filter_Lead_Time_Days)
next
  assume ne: "List.map_filter Lead_Time_Days rdf \<noteq> []"
  then have "rdf \<noteq> []" by auto
  then have "lead_time_median rdf = median (map Lead_Time_Days rdf)"
    by (simp add: lead_time_median_def)
  moreover have "List.map_filter id (map Lead_Time_Days rdf) \<noteq> []"
    using ne by (simp add: map_filter_Lead_Time_Days)
  ultimately show "\<exists>m. lead_time_median rdf = Some m
          \<and> length (List.map_filter Lead_Time_Days rdf)
              \<le> 2 * length (filter (\<lambda>v. v \<le> m) (List.map_filter Lead_Time_Days rdf))
          \<and> length (List.map_filter Lead_Time_Days rdf)
              \<le> 2 * length (filter (\<lambda>v. m \<le> v) (List.map_filter Lead_Time_Days rdf))
          \<and> (odd (length (List.map_filter Lead_Time_Days rdf))
               \<longrightarrow> m \<in> set (List.map_filter Lead_Time_Days rdf))
          \<and> (even (length (List.map_filter Lead_Time_Days rdf)) \<longrightarrow>
               m = (sort (List.map_filter Lead_Time_Days rdf)
                      ! (length (List.map_filter Lead_Time_Days rdf) div 2 - 1)
                    + sort (List.map_filter Lead_Time_Days rdf)
                      ! (length (List.map_filter Lead_Time_Days rdf) div 2)) / 2)"
    using median_half [of "map Lead_Time_Days rdf"]
    by (simp add: map_filter_Lead_Time_Days)
qed

text \<open>
  The file of the story and the bug has a created date, and its second card is the
  median 2 of the one lead time, for two different widget states; an empty
  \<^verbatim>\<open>resolved_df\<close> gives the placeholder, and one whose only lead time is NaN gives NaN.
\<close>

theorem lead_time_median_ignores_filters_witness:
  "min_date (fst (load_data pd_to_datetime [csv_scenario, csv_open_bug])) \<noteq> None
   \<and> fst (dashboard pd_to_datetime (Some ValueError) [csv_scenario, csv_open_bug]
             None [Str ''Done''] [''Bugs'']) ! 1 = Lead_Time_mediana (Some 2)
   \<and> fst (dashboard pd_to_datetime (Some ValueError) [csv_scenario, csv_open_bug]
             (Some [20495]) [] []) ! 1 = Lead_Time_mediana (Some 2)
   \<and> lead_time_median [] = Some 0
   \<and> snd (load_data pd_to_datetime [csv_unparsable_created]) \<noteq> []
   \<and> List.map_filter Lead_Time_Days (snd (load_data pd_to_datetime [csv_unparsable_created])) = []
   \<and> lead_time_median (snd (load_data pd_to_datetime [csv_unparsable_created])) = None
   \<and> List.map_filter Lead_Time_Days (snd (load_data pd_to_datetime [csv_scenario, csv_open_bug])) = [2]
   \<and> lead_time_median (snd (load_data pd_to_datetime [csv_scenario, csv_open_bug])) = Some 2"
proof -
  define R where "R = snd (load_data pd_to_datetime [csv_scenario, csv_open_bug])"
  define U where "U = snd (load_data pd_to_datetime [csv_unparsable_created])"
  have lo: "min_date (fst (load_data pd_to_datetime [csv_scenario, csv_open_bug])) \<noteq> None"
    by code_simp
  have vs: "List.map_filter Lead_Time_Days R = [2]"
    unfolding R_def by code_simp
  have u: "U \<noteq> [] \<and> List.map_filter Lead_Time_Days U = []"
    unfolding U_def by code_simp
  note t = lead_time_median_ignores_filters
    [where p = pd_to_datetime and csv = "[csv_scenario, csv_open_bug]"
       and on_nat = "Some ValueError" and picked = None and ss = "[Str ''Done'']"
       and st = "[''Bugs'']" and picked' = "Some [20495]" and ss' = "[]" and st' = "[]"
       and rdf = R]
  from t vs obtain m where m: "lead_time_median R = Some m" "m \<in> set [2::rat]"
    by auto
  then have med: "lead_time_median R = Some 2" by simp
  have a: "fst (dashboard pd_to_datetime (Some ValueError) [csv_scenario, csv_open_bug]
             None [Str ''Done''] [''Bugs'']) ! 1 = Lead_Time_mediana (lead_time_median R)"
    and b: "fst (dashboard pd_to_datetime (Some ValueError) [csv_scenario, csv_open_bug]
             None [Str ''Done''] [''Bugs'']) ! 1
        = fst (dashboard pd_to_datetime (Some ValueError) [csv_scenario, csv_open_bug]
             (Some [20495]) [] []) ! 1"
    using t lo unfolding R_def by blast+
  have c1: "fst (dashboard pd_to_datetime (Some ValueError) [csv_scenario, csv_open_bug]
             None [Str ''Done''] [''Bugs'']) ! 1 = Lead_Time_mediana (Some 2)"
    by (rule trans [OF a]) (simp add: med)
  have c2: "fst (dashboard pd_to_datetime (Some ValueError) [csv_scenario, csv_open_bug]
             (Some [20495]) [] []) ! 1 = Lead_Time_mediana (Some 2)"
    by (rule trans [OF b [symmetric] c1])
  have e: "lead_time_median [] = Some 0"
    using lead_time_median_ignores_filters [where rdf = "[]"] by simp
  have n: "lead_time_median U = None"
    using u lead_time_median_ignores_filters [where rdf = U] by simp
  show ?thesis
    using lo c1 c2 e u n vs med unfolding R_def U_def by blast
qed

section \<open>Unparsable dates\<close>

lemma filter_date_no_created:
  assumes "\<forall>r \<in> set df. Created r = None" and "length dr = 2"
  shows "filter_date dr df = []"
  using assms by (auto simp: filter_date_def date_ge_def dt_date_def filter_empty_conv)

lemma map_filter_no_created:
  "\<forall>r \<in> set df. Created r = None \<Longrightarrow> List.map_filter Created df = []"
  by (induction df) simp_all

lemma min_date_no_created:
  assumes "\<forall>r \<in> set csv. p (Created r) = None"
  shows "min_date (fst (load_data p csv)) = None"
proof -
  have "\<forall>r \<in> set (fst (load_data p csv)). Created r = None"
    using assms by (auto simp: load_data_def Let_def with_categoria_fields parse_dates_def)
  then have "List.map_filter Created (fst (load_data p csv)) = []"
    by (rule map_filter_no_created)
  then show ?thesis by (simp add: min_date_None)
qed

lemma filters_Nil: "filter_tipo st (filter_status ss []) = []"
  by (simp add: filter_tipo_def filter_status_def)

text \<open>
  When no Created value of the file parses, the first run of the script (the date
  picker untouched) stops with an exception, whatever the libraries do with the NaT
  bounds and whatever is selected: with the exception of lines 82-89, or with the
  division by zero of the fourth card.
\<close>

lemma unparsable_created_first_run:
  assumes "\<forall>r \<in> set csv. p (Created r) = None"
  shows "snd (dashboard p on_nat csv None ss st)
     = (case on_nat of Some e \<Rightarrow> Some e | None \<Rightarrow> Some ZeroDivisionError)"
  by (simp add: dashboard_undated [OF min_date_no_created [OF assms]] filters_Nil
      metric_cards_Nil split: option.splits)

text \<open>
  C7. A file whose only row has a Created value in another format: the row is kept
  with Created NaT, and the earliest and the latest creation date of lines 82-83 are
  NaT. On the first run, with no widget touched, the script stops with an exception
  either way: when lines 82-89 raise \<open>e\<close> on the NaT bounds, with \<open>e\<close> and no card
  drawn; when the picker returns its value, the view is empty and the script stops
  with ZeroDivisionError at the fourth card.
\<close>

theorem all_created_unparsable_raises:
  "map Created (fst (load_data pd_to_datetime [csv_unparsable_created])) = [None]
   \<and> min_date (fst (load_data pd_to_datetime [csv_unparsable_created])) = None
   \<and> max_date (fst (load_data pd_to_datetime [csv_unparsable_created])) = None
   \<and> dashboard pd_to_datetime (Some e) [csv_unparsable_created] None [Str ''Todos''] [''Todos'']
     = ([], Some e)
   \<and> dashboard pd_to_datetime None [csv_unparsable_created] None [Str ''Todos''] [''Todos'']
     = ([Taxa_de_Conclusao 0, Lead_Time_mediana None, Razao_Valor_Divida 0],
        Some ZeroDivisionError)"
proof -
  have c: "map Created (fst (load_data pd_to_datetime [csv_unparsable_created])) = [None]"
    by code_simp
  have lo: "min_date (fst (load_data pd_to_datetime [csv_unparsable_created])) = None"
    by code_simp
  have hi: "max_date (fst (load_data pd_to_datetime [csv_unparsable_created])) = None"
    by code_simp
  have z: "dashboard pd_to_datetime None [csv_unparsable_created] None [Str ''Todos''] [''Todos'']
     = ([Taxa_de_Conclusao 0, Lead_Time_mediana None, Razao_Valor_Divida 0],
        Some ZeroDivisionError)"
    by code_simp
  show ?thesis
    using c lo hi z by (simp add: dashboard_undated [OF lo])
qed

section \<open>Cumulative flow\<close>

lemma length_cumsum: "length (cumsum acc bs) = length bs"
  by (induction bs arbitrary: acc) simp_all

lemma cumsum_nth:
  "i < length bs \<Longrightarrow> cumsum acc bs ! i = acc + length (filter id (take (Suc i) bs))"
proof (induction bs arbitrary: acc i)
  case Nil
  then show ?case by simp
next
  case (Cons b bs)
  show ?case
  proof (cases i)
    case 0
    then show ?thesis by simp
  next
    case (Suc j)
    with Cons.prems have "j < length bs" by simp
    from Cons.IH [OF this] Suc show ?thesis by simp
  qed
qed

lemma cumsum_lower: "x \<in> set (cumsum acc bs) \<Longrightarrow> acc \<le> x"
proof (induction bs arbitrary: acc)
  case Nil
  then show ?case by simp
next
  case (Cons b bs)
  then show ?case by (fastforce split: if_splits)
qed

lemma sorted_cumsum: "sorted (cumsum acc bs)"
proof (induction bs arbitrary: acc)
  case Nil
  then show ?case by simp
next
  case (Cons b bs)
  then show ?case by (auto dest: cumsum_lower)
qed

lemma length_sort_values_Created: "length (sort_values_Created df) = length df"
proof -
  have "length (filter (\<lambda>r. Created r \<noteq> None) df)
      + length (filter (\<lambda>r. \<not> Created r \<noteq> None) df) = length df"
    by (rule sum_length_filter_compl)
  then show ?thesis by (simp add: sort_values_Created_def)
qed

lemma set_sort_values_Created: "set (sort_values_Created df) = set df"
  by (auto simp: sort_values_Created_def)

text \<open>
  C10. For the view sorted by creation date, both series have one entry per row of the
  view. At every position \<open>i\<close> the running total is \<open>i + 1\<close>, the running count of
  Done is the number of Done rows among the first \<open>i + 1\<close> sorted rows, and it is at
  most the running total. Both series are non-decreasing.
\<close>

theorem cumulative_flow_series:
  "length (Cumulative_Total (sort_values_Created view)) = length view
   \<and> length (Cumulative_Done (sort_values_Created view)) = length view
   \<and> (\<forall>i < length view.
        Cumulative_Total (sort_values_Created view) ! i = i + 1
        \<and> Cumulative_Done (sort_values_Created view) ! i
            = length (filter (\<lambda>r. Status r = Str ''Done'') (take (i + 1) (sort_values_Created view)))
        \<and> Cumulative_Done (sort_values_Created view) ! i
            \<le> Cumulative_Total (sort_values_Created view) ! i)
   \<and> sorted (Cumulative_Total (sort_values_Created view))
   \<and> sorted (Cumulative_Done (sort_values_Created view))"
proof -
  define s where "s = sort_values_Created view"
  have len: "length s = length view"
    by (simp add: s_def length_sort_values_Created)
  have tot: "Cumulative_Total s ! i = i + 1" if "i < length view" for i
    using that len by (simp add: Cumulative_Total_def del: upt_Suc)
  have don: "Cumulative_Done s ! i = length (filter (\<lambda>r. Status r = Str ''Done'') (take (i + 1) s))"
    if "i < length view" for i
  proof -
    have "Cumulative_Done s ! i
        = length (filter id (take (Suc i) (map (\<lambda>r. Status r = Str ''Done'') s)))"
      using that len by (simp add: Cumulative_Done_def cumsum_nth)
    also have "\<dots> = length (filter (\<lambda>r. Status r = Str ''Done'') (take (i + 1) s))"
      by (simp add: take_map filter_map o_def)
    finally show ?thesis .
  qed
  have le: "Cumulative_Done s ! i \<le> Cumulative_Total s ! i" if "i < length view" for i
  proof -
    have "length (filter (\<lambda>r. Status r = Str ''Done'') (take (i + 1) s)) \<le> length (take (i + 1) s)"
      by (rule length_filter_le)
    also have "\<dots> \<le> i + 1" by simp
    finally show ?thesis using that by (simp add: don tot)
  qed
  have "sorted (Cumulative_Total s)"
    by (simp add: Cumulative_Total_def del: upt_Suc)
  moreover have "sorted (Cumulative_Done s)"
    by (simp add: Cumulative_Done_def sorted_cumsum)
  moreover have "length (Cumulative_Total s) = length view"
    by (simp add: Cumulative_Total_def len del: upt_Suc)
  moreover have "length (Cumulative_Done s) = length view"
    by (simp add: Cumulative_Done_def length_cumsum len)
  ultimately show ?thesis
    using tot don le unfolding s_def by blast
qed

text \<open>The second position of the series of the two dated example rows.\<close>

theorem cumulative_flow_series_witness:
  "(1::nat) < length (fst (load_data pd_to_datetime [csv_open_bug, csv_scenario]))
   \<and> Cumulative_Total (sort_values_Created
        (fst (load_data pd_to_datetime [csv_open_bug, csv_scenario]))) ! 1 = 2
   \<and> Cumulative_Done (sort_values_Created
        (fst (load_data pd_to_datetime [csv_open_bug, csv_scenario]))) ! 1 \<le> 2"
proof -
  define v where "v = fst (load_data pd_to_datetime [csv_open_bug, csv_scenario])"
  have one: "1 < length v"
    by (simp add: v_def load_data_def)
  have "\<forall>i < length v. Cumulative_Total (sort_values_Created v) ! i = i + 1
      \<and> Cumulative_Done (sort_values_Created v) ! i
          = length (filter (\<lambda>r. Status r = Str ''Done'') (take (i + 1) (sort_values_Created v)))
      \<and> Cumulative_Done (sort_values_Created v) ! i \<le> Cumulative_Total (sort_values_Created v) ! i"
    using cumulative_flow_series [of v] by blast
  with one have "Cumulative_Total (sort_values_Created v) ! 1 = 1 + 1
      \<and> Cumulative_Done (sort_values_Created v) ! 1 \<le> Cumulative_Total (sort_values_Created v) ! 1"
    by blast
  then have "Cumulative_Total (sort_values_Created v) ! 1 = 2
      \<and> Cumulative_Done (sort_values_Created v) ! 1 \<le> 2"
    by simp
  with one show ?thesis
    unfolding v_def by blast
qed

section \<open>Export and re-ingestion\<close>

lemma categoria_na: "s \<in> set na_values \<Longrightarrow> categoria (Str s) = ''Outros''"
  unfolding na_values_def by (auto simp: categoria_def Historia_def)

lemma categoria_NaN: "categoria NaN = ''Outros''"
  by (simp add: categoria_def)

text \<open>Writing a cell and reading the field back does not change its category.\<close>

lemma categoria_reread: "categoria (read_field (write_cell c)) = categoria c"
proof (cases c)
  case (Str s)
  show ?thesis
  proof (cases "s \<in> set na_values")
    case True
    then show ?thesis
      using Str by (simp add: read_field_def write_cell_def categoria_na categoria_NaN)
  next
    case False
    then show ?thesis
      using Str by (simp add: read_field_def write_cell_def)
  qed
next
  case NaN
  then show ?thesis by (simp add: read_field_def write_cell_def na_values_def)
qed

lemma Categoria_load_data:
  "r \<in> set (fst (load_data p csv)) \<Longrightarrow> Categoria r = categoria (Issue_Type r)"
  by (auto simp: load_data_def Let_def Categoria_with_categoria Issue_Type_with_categoria)

lemma df_filtered_subset: "set (df_filtered dr ss st df) \<subseteq> set df"
  by (auto simp: df_filtered_def filter_tipo_def filter_status_def filter_date_def split: if_splits)

lemma Categoria_reingest:
  "map Categoria (fst (reingest p isoformat view)) = map (\<lambda>r. categoria (Issue_Type r)) view"
  by (simp add: reingest_def load_data_def Let_def o_def Categoria_with_categoria
      Issue_Type_parse_dates to_csv_read_csv_def categoria_reread)

text \<open>
  C8. For every filtered view of an ingested table, writing the view to a file and
  running the ingestion on that file gives a table with as many rows as the view and,
  row by row, the category the view has; this holds for every date parser and every
  rendering of the timestamps.
\<close>

theorem export_reingest_roundtrip:
  "length (fst (reingest p isoformat (df_filtered dr ss st (fst (load_data p0 csv)))))
     = length (df_filtered dr ss st (fst (load_data p0 csv)))
   \<and> map Categoria (fst (reingest p isoformat (df_filtered dr ss st (fst (load_data p0 csv)))))
     = map Categoria (df_filtered dr ss st (fst (load_data p0 csv)))"
proof
  show "length (fst (reingest p isoformat (df_filtered dr ss st (fst (load_data p0 csv)))))
     = length (df_filtered dr ss st (fst (load_data p0 csv)))"
    by (simp add: reingest_def load_data_def Let_def)
  have "map (\<lambda>r. categoria (Issue_Type r)) (df_filtered dr ss st (fst (load_data p0 csv)))
      = map Categoria (df_filtered dr ss st (fst (load_data p0 csv)))"
  proof (rule map_cong [OF refl])
    fix r assume "r \<in> set (df_filtered dr ss st (fst (load_data p0 csv)))"
    then have "r \<in> set (fst (load_data p0 csv))"
      using df_filtered_subset by blast
    then show "categoria (Issue_Type r) = Categoria r"
      by (simp add: Categoria_load_data)
  qed
  then show "map Categoria (fst (reingest p isoformat (df_filtered dr ss st (fst (load_data p0 csv)))))
     = map Categoria (df_filtered dr ss st (fst (load_data p0 csv)))"
    by (simp add: Categoria_reingest)
qed

end
